theory Spec2Isabelle
  imports Main "HOL-Library.Word" "HOL-Library.AList" "HOL-Library.Sublist"
begin

section \<open>Account configuration of saml2aws (pkg/cfg/cfg.go)\<close>

text \<open>
  The development follows \<^verbatim>\<open>pkg/cfg/cfg.go\<close>: the account record \<^verbatim>\<open>IDPAccount\<close>, its
  rendering \<^verbatim>\<open>String\<close>, its validation \<^verbatim>\<open>Validate\<close>, the constructor
  \<^verbatim>\<open>NewIDPAccount\<close>, and the \<^verbatim>\<open>ConfigManager\<close> with \<^verbatim>\<open>SaveIDPAccount\<close>,
  \<^verbatim>\<open>LoadIDPAccount\<close> and \<^verbatim>\<open>readAccount\<close>.
\<close>

subsection \<open>Errors\<close>

text \<open>
  Go errors as values. \<^verbatim>\<open>errors.New\<close> and \<^verbatim>\<open>errors.Wrap\<close> of
  \<^verbatim>\<open>github.com/pkg/errors\<close> are constructors; \<open>ErrIdpAccountNotFound\<close> is the package
  variable of line 14. An error produced inside an imported package (the prompter, the
  INI library) is \<open>External\<close> with its message: Go has no import cycles, so such a
  package cannot hand back a variable of package \<^verbatim>\<open>cfg\<close>.
\<close>

datatype error =
    ErrIdpAccountNotFound
  | New string
  | Wrap error string
  | External string

text \<open>\<^verbatim>\<open>err.Error()\<close>: a wrapped error prints its message, a colon and the cause.\<close>

fun Error :: "error \<Rightarrow> string" where
  "Error ErrIdpAccountNotFound = ''IDP account not found, run configure to set it up''"
| "Error (New msg) = msg"
| "Error (Wrap err msg) = msg @ '': '' @ Error err"
| "Error (External msg) = msg"



subsection \<open>Constants\<close>

definition DefaultConfigPath :: string where
  "DefaultConfigPath = ''~/.saml2aws''"

definition DefaultAmazonWebservicesURN :: string where
  "DefaultAmazonWebservicesURN = ''urn:amazon:webservices''"

definition DefaultSessionDuration :: "64 word" where
  "DefaultSessionDuration = 3600"

definition DefaultProfile :: string where
  "DefaultProfile = ''saml''"

subsection \<open>The account record\<close>

text \<open>
  The struct \<^verbatim>\<open>IDPAccount\<close>, field by field in declaration order. Go's \<^verbatim>\<open>int\<close> is a
  64-bit two's complement integer on the platforms the project builds for: a
  \<open>64 word\<close>, read with \<open>sint\<close>.
\<close>

record IDPAccount =
  Name :: string
  AppID :: string
  URL :: string
  Username :: string
  Provider :: string
  BrowserType :: string
  BrowserExecutablePath :: string
  BrowserAutoFill :: bool
  MFA :: string
  MFAIPAddress :: string
  SkipVerify :: bool
  Timeout :: "64 word"
  AmazonWebservicesURN :: string
  SessionDuration :: "64 word"
  Profile :: string
  ResourceID :: string
  Subdomain :: string
  RoleARN :: string
  PolicyFile :: string
  PolicyARNs :: string
  Region :: string
  HttpAttemptsCount :: string
  HttpRetryDelay :: string
  CredentialsFile :: string
  SAMLCache :: bool
  SAMLCacheFile :: string
  TargetURL :: string
  DisableRememberDevice :: bool
  DisableSessions :: bool
  DownloadBrowser :: bool
  BrowserDriverDir :: string
  Headless :: bool
  Prompter :: string
  KCAuthErrorMessage :: string
  KCAuthErrorElement :: string
  KCBroker :: string

text \<open>
  \<^verbatim>\<open>NewIDPAccount\<close> (lines 160-166): three fields get their defaults, every other field
  has Go's zero value.
\<close>

definition NewIDPAccount :: IDPAccount where
  "NewIDPAccount = \<lparr>
     Name = '''', AppID = '''', URL = '''', Username = '''', Provider = '''',
     BrowserType = '''', BrowserExecutablePath = '''', BrowserAutoFill = False,
     MFA = '''', MFAIPAddress = '''', SkipVerify = False, Timeout = 0,
     AmazonWebservicesURN = DefaultAmazonWebservicesURN,
     SessionDuration = DefaultSessionDuration,
     Profile = DefaultProfile,
     ResourceID = '''', Subdomain = '''', RoleARN = '''', PolicyFile = '''',
     PolicyARNs = '''', Region = '''', HttpAttemptsCount = '''', HttpRetryDelay = '''',
     CredentialsFile = '''', SAMLCache = False, SAMLCacheFile = '''', TargetURL = '''',
     DisableRememberDevice = False, DisableSessions = False, DownloadBrowser = False,
     BrowserDriverDir = '''', Headless = False, Prompter = '''',
     KCAuthErrorMessage = '''', KCAuthErrorElement = '''', KCBroker = '''' \<rparr>"

subsection \<open>Formatting of booleans and integers\<close>

text \<open>
  \<^verbatim>\<open>%v\<close> of a \<^verbatim>\<open>bool\<close> prints \<^verbatim>\<open>true\<close> or \<^verbatim>\<open>false\<close>; \<^verbatim>\<open>%d\<close> of an \<^verbatim>\<open>int\<close> prints its
  decimal digits, with a minus sign when negative.
\<close>

definition FormatBool :: "bool \<Rightarrow> string" where
  "FormatBool b = (if b then ''true'' else ''false'')"

definition digit_char :: "nat \<Rightarrow> char" where
  "digit_char d = ''0123456789'' ! d"

function nat_digits :: "nat \<Rightarrow> string" where
  "nat_digits n =
     (if n < 10 then [digit_char n] else nat_digits (n div 10) @ [digit_char (n mod 10)])"
  by pat_completeness auto
termination
  by (relation "measure id") auto

declare nat_digits.simps [simp del]

definition Itoa :: "int \<Rightarrow> string" where
  "Itoa i = (if i < 0 then CHR ''-'' # nat_digits (nat (- i)) else nat_digits (nat i))"

definition FormatInt :: "64 word \<Rightarrow> string" where
  "FormatInt w = Itoa (sint w)"

subsection \<open>Rendering\<close>

definition nl :: string where
  "nl = [CHR 0x0A]"

text \<open>
  \<^verbatim>\<open>IDPAccount.String\<close> (lines 75-107). The \<^verbatim>\<open>switch\<close> on the provider fills one of
  the fragments \<^verbatim>\<open>appID\<close>, \<^verbatim>\<open>policyID\<close>, \<^verbatim>\<open>oktaCfg\<close> and leaves the others
  empty; the final \<^verbatim>\<open>Sprintf\<close> places them after the opening brace.
  The Okta fragment passes \<^verbatim>\<open>ia.DisableSessions\<close> for both of its verbs (line 92).
\<close>

definition provider_parts :: "IDPAccount \<Rightarrow> string \<times> string \<times> string" where
  "provider_parts ia =
     (if Provider ia = ''OneLogin''
        then (nl @ ''  AppID: '' @ AppID ia @ nl @ ''  Subdomain: '' @ Subdomain ia, '''', '''')
      else if Provider ia = ''F5APM''
        then ('''', nl @ ''  ResourceID: '' @ ResourceID ia, '''')
      else if Provider ia = ''AzureAD''
        then (nl @ ''  AppID: '' @ AppID ia, '''', '''')
      else if Provider ia = ''Okta''
        then ('''', '''',
              nl @ ''  DisableSessions: '' @ FormatBool (DisableSessions ia)
              @ nl @ ''  DisableRememberDevice: '' @ FormatBool (DisableSessions ia))
      else ('''', '''', ''''))"

definition String :: "IDPAccount \<Rightarrow> string" where
  "String ia =
     (case provider_parts ia of (appID, policyID, oktaCfg) \<Rightarrow>
     ''account {'' @ appID @ policyID @ oktaCfg
     @ nl @ ''  URL: '' @ URL ia
     @ nl @ ''  Username: '' @ Username ia
     @ nl @ ''  Provider: '' @ Provider ia
     @ nl @ ''  MFA: '' @ MFA ia
     @ nl @ ''  SkipVerify: '' @ FormatBool (SkipVerify ia)
     @ nl @ ''  AmazonWebservicesURN: '' @ AmazonWebservicesURN ia
     @ nl @ ''  SessionDuration: '' @ FormatInt (SessionDuration ia)
     @ nl @ ''  Profile: '' @ Profile ia
     @ nl @ ''  RoleARN: '' @ RoleARN ia
     @ nl @ ''  Region: '' @ Region ia
     @ nl @ ''}'')"

subsection \<open>Validation\<close>

text \<open>
  \<^verbatim>\<open>Validate\<close> calls two functions of other packages: \<^verbatim>\<open>url.Parse\<close> of the Go standard
  library, of which only the success matters (line 133 drops the parsed URL), and
  \<^verbatim>\<open>prompter.ValidateAndSetPrompter\<close>, whose error is returned as it is. Both are
  parameters of the model. Activating the prompter is an effect inside the prompter
  package and leaves no trace in this one.
\<close>

record collaborators =
  url_Parse_ok :: "string \<Rightarrow> bool"
  ValidateAndSetPrompter :: "string \<Rightarrow> string option"

text \<open>\<^verbatim>\<open>IDPAccount.Validate\<close> (lines 110-157); \<open>None\<close> is Go's \<^verbatim>\<open>nil\<close>.\<close>

definition provider_checks :: "IDPAccount \<Rightarrow> error option" where
  "provider_checks ia =
     (if Provider ia = ''OneLogin'' then
        (if AppID ia = '''' then Some (New ''app ID empty in idp account'')
         else if Subdomain ia = '''' then Some (New ''subdomain empty in idp account'')
         else None)
      else if Provider ia = ''F5APM'' then
        (if ResourceID ia = '''' then Some (New ''Resource ID empty in idp account'')
         else None)
      else if Provider ia = ''AzureAD'' then
        (if AppID ia = '''' then Some (New ''app ID empty in idp account'')
         else None)
      else None)"

definition Validate :: "collaborators \<Rightarrow> IDPAccount \<Rightarrow> error option" where
  "Validate env ia =
     (case provider_checks ia of
        Some e \<Rightarrow> Some e
      | None \<Rightarrow>
          if URL ia = '''' then Some (New ''URL empty in idp account'')
          else if \<not> url_Parse_ok env (URL ia) then Some (New ''URL parse failed'')
          else if Provider ia = '''' then Some (New ''Provider empty in idp account'')
          else if Provider ia \<noteq> ''Browser'' \<and> MFA ia = ''''
            then Some (New ''MFA empty in idp account'')
          else if Profile ia = '''' then Some (New ''Profile empty in idp account'')
          else (case ValidateAndSetPrompter env (Prompter ia) of
                  Some msg \<Rightarrow> Some (External msg)
                | None \<Rightarrow> None))"

subsection \<open>Reading booleans and integers\<close>

text \<open>
  The INI library \<^verbatim>\<open>gopkg.in/ini.v1\<close> is a third-party package; this and the following
  subsections describe the functions of it that \<^verbatim>\<open>cfg.go\<close> calls, as the library
  behaves. It reads a boolean with its own \<^verbatim>\<open>parseBool\<close>, which knows these spellings
  and no others.
\<close>

definition ParseBool :: "string \<Rightarrow> bool option" where
  "ParseBool str =
     (if str \<in> set [''1'', ''t'', ''T'', ''true'', ''TRUE'', ''True'', ''YES'', ''yes'',
                     ''Yes'', ''y'', ''ON'', ''on'', ''On''] then Some True
      else if str \<in> set [''0'', ''f'', ''F'', ''false'', ''FALSE'', ''False'', ''NO'', ''no'',
                          ''No'', ''n'', ''OFF'', ''off'', ''Off''] then Some False
      else None)"

text \<open>
  The library reads an integer with \<^verbatim>\<open>strconv.ParseInt(s, 0, 64)\<close> of the Go standard
  library: an optional sign, then with base 0 a prefix \<^verbatim>\<open>0b\<close>, \<^verbatim>\<open>0o\<close> or \<^verbatim>\<open>0x\<close> (a
  digit must follow) or a leading \<^verbatim>\<open>0\<close> for octal, then digits of that base, in
  which underscores may separate digits. \<open>digit_of\<close> is the value of a digit
  character; Go's \<^verbatim>\<open>lower\<close> makes the letters of both cases digits.
\<close>

definition digit_of :: "char \<Rightarrow> nat option" where
  "digit_of c =
     (let n = (of_char c :: nat) in
      if 48 \<le> n \<and> n \<le> 57 then Some (n - 48)
      else if 97 \<le> n \<and> n \<le> 122 then Some (n - 97 + 10)
      else if 65 \<le> n \<and> n \<le> 90 then Some (n - 65 + 10)
      else None)"

text \<open>
  The digit loop of \<^verbatim>\<open>ParseUint\<close>. The accumulator is an unbounded natural number;
  Go stops with a range error once 64 bits overflow, and \<open>ParseInt\<close> below rejects
  every value out of range, so the verdict is the same.
\<close>

fun digits_val :: "nat \<Rightarrow> nat \<Rightarrow> string \<Rightarrow> nat option" where
  "digits_val base acc [] = Some acc"
| "digits_val base acc (c # cs) =
     (if c = CHR ''_'' then digits_val base acc cs
      else case digit_of c of
             None \<Rightarrow> None
           | Some d \<Rightarrow> if base \<le> d then None else digits_val base (acc * base + d) cs)"

definition split_base :: "string \<Rightarrow> nat \<times> string" where
  "split_base s =
     (case s of
        [] \<Rightarrow> (10, s)
      | c0 # rest \<Rightarrow>
          if c0 \<noteq> CHR ''0'' then (10, s)
          else (case rest of
                  c1 # c2 # r \<Rightarrow>
                    if c1 = CHR ''b'' \<or> c1 = CHR ''B'' then (2, c2 # r)
                    else if c1 = CHR ''o'' \<or> c1 = CHR ''O'' then (8, c2 # r)
                    else if c1 = CHR ''x'' \<or> c1 = CHR ''X'' then (16, c2 # r)
                    else (8, rest)
                | _ \<Rightarrow> (8, rest)))"

text \<open>
  \<^verbatim>\<open>underscoreOK\<close>: an underscore must follow a digit or a base prefix and must be
  followed by a digit. \<open>saw\<close> is the kind of the last character seen.
\<close>

datatype saw = SawStart | SawDigit | SawUnderscore | SawOther

fun underscore_scan :: "bool \<Rightarrow> saw \<Rightarrow> string \<Rightarrow> bool" where
  "underscore_scan hex seen [] = (seen \<noteq> SawUnderscore)"
| "underscore_scan hex seen (c # cs) =
     (let n = (of_char c :: nat) in
      if 48 \<le> n \<and> n \<le> 57 \<or> hex \<and> (97 \<le> n \<and> n \<le> 102 \<or> 65 \<le> n \<and> n \<le> 70)
        then underscore_scan hex SawDigit cs
      else if c = CHR ''_''
        then (if seen \<noteq> SawDigit then False else underscore_scan hex SawUnderscore cs)
      else if seen = SawUnderscore then False
      else underscore_scan hex SawOther cs)"

definition underscoreOK :: "string \<Rightarrow> bool" where
  "underscoreOK s =
     (let s1 = (case s of
                  [] \<Rightarrow> s
                | c # cs \<Rightarrow> if c = CHR ''-'' \<or> c = CHR ''+'' then cs else s)
      in case s1 of
           c0 # c1 # r \<Rightarrow>
             if c0 = CHR ''0'' \<and> c1 \<in> set ''bBoOxX''
               then underscore_scan (c1 = CHR ''x'' \<or> c1 = CHR ''X'') SawDigit r
             else underscore_scan False SawStart s1
         | _ \<Rightarrow> underscore_scan False SawStart s1)"

definition ParseUint :: "string \<Rightarrow> nat option" where
  "ParseUint s =
     (if s = [] then None
      else case split_base s of
        (base, body) \<Rightarrow>
          (case digits_val base 0 body of
             None \<Rightarrow> None
           | Some n \<Rightarrow> if CHR ''_'' \<in> set body \<and> \<not> underscoreOK s then None else Some n))"

definition ParseInt :: "string \<Rightarrow> 64 word option" where
  "ParseInt s =
     (case s of
        [] \<Rightarrow> None
      | c # cs \<Rightarrow>
          (let neg = (c = CHR ''-'');
               body = (if c = CHR ''+'' \<or> c = CHR ''-'' then cs else s)
           in case ParseUint body of
                None \<Rightarrow> None
              | Some un \<Rightarrow>
                  if \<not> neg \<and> 2 ^ 63 \<le> un then None
                  else if neg \<and> 2 ^ 63 < un then None
                  else Some (word_of_int (if neg then - int un else int un))))"

subsection \<open>The persisted keys of the record\<close>

text \<open>
  The \<^verbatim>\<open>ini:"..."\<close> tags of the struct (lines 37-72): for every field, in declaration
  order, its key in the file, whether the tag carries \<^verbatim>\<open>omitempty\<close>, and the field
  itself as a getter and a setter of its Go type.
\<close>

datatype accessor =
    StringField "IDPAccount \<Rightarrow> string" "string \<Rightarrow> IDPAccount \<Rightarrow> IDPAccount"
  | BoolField "IDPAccount \<Rightarrow> bool" "bool \<Rightarrow> IDPAccount \<Rightarrow> IDPAccount"
  | IntField "IDPAccount \<Rightarrow> 64 word" "64 word \<Rightarrow> IDPAccount \<Rightarrow> IDPAccount"

type_synonym struct_field = "string \<times> bool \<times> accessor"

definition IDPAccount_fields :: "struct_field list" where
  "IDPAccount_fields = [
     (''name'', False, StringField Name (\<lambda>v ia. ia\<lparr>Name := v\<rparr>)),
     (''app_id'', False, StringField AppID (\<lambda>v ia. ia\<lparr>AppID := v\<rparr>)),
     (''url'', False, StringField URL (\<lambda>v ia. ia\<lparr>URL := v\<rparr>)),
     (''username'', False, StringField Username (\<lambda>v ia. ia\<lparr>Username := v\<rparr>)),
     (''provider'', False, StringField Provider (\<lambda>v ia. ia\<lparr>Provider := v\<rparr>)),
     (''browser_type'', True, StringField BrowserType (\<lambda>v ia. ia\<lparr>BrowserType := v\<rparr>)),
     (''browser_executable_path'', True,
        StringField BrowserExecutablePath (\<lambda>v ia. ia\<lparr>BrowserExecutablePath := v\<rparr>)),
     (''browser_autofill'', True,
        BoolField BrowserAutoFill (\<lambda>v ia. ia\<lparr>BrowserAutoFill := v\<rparr>)),
     (''mfa'', False, StringField MFA (\<lambda>v ia. ia\<lparr>MFA := v\<rparr>)),
     (''mfa_ip_address'', False, StringField MFAIPAddress (\<lambda>v ia. ia\<lparr>MFAIPAddress := v\<rparr>)),
     (''skip_verify'', False, BoolField SkipVerify (\<lambda>v ia. ia\<lparr>SkipVerify := v\<rparr>)),
     (''timeout'', False, IntField Timeout (\<lambda>v ia. ia\<lparr>Timeout := v\<rparr>)),
     (''aws_urn'', False,
        StringField AmazonWebservicesURN (\<lambda>v ia. ia\<lparr>AmazonWebservicesURN := v\<rparr>)),
     (''aws_session_duration'', False,
        IntField SessionDuration (\<lambda>v ia. ia\<lparr>SessionDuration := v\<rparr>)),
     (''aws_profile'', False, StringField Profile (\<lambda>v ia. ia\<lparr>Profile := v\<rparr>)),
     (''resource_id'', False, StringField ResourceID (\<lambda>v ia. ia\<lparr>ResourceID := v\<rparr>)),
     (''subdomain'', False, StringField Subdomain (\<lambda>v ia. ia\<lparr>Subdomain := v\<rparr>)),
     (''role_arn'', False, StringField RoleARN (\<lambda>v ia. ia\<lparr>RoleARN := v\<rparr>)),
     (''policy_file'', False, StringField PolicyFile (\<lambda>v ia. ia\<lparr>PolicyFile := v\<rparr>)),
     (''policy_arn_list'', False, StringField PolicyARNs (\<lambda>v ia. ia\<lparr>PolicyARNs := v\<rparr>)),
     (''region'', False, StringField Region (\<lambda>v ia. ia\<lparr>Region := v\<rparr>)),
     (''http_attempts_count'', False,
        StringField HttpAttemptsCount (\<lambda>v ia. ia\<lparr>HttpAttemptsCount := v\<rparr>)),
     (''http_retry_delay'', False,
        StringField HttpRetryDelay (\<lambda>v ia. ia\<lparr>HttpRetryDelay := v\<rparr>)),
     (''credentials_file'', False,
        StringField CredentialsFile (\<lambda>v ia. ia\<lparr>CredentialsFile := v\<rparr>)),
     (''saml_cache'', False, BoolField SAMLCache (\<lambda>v ia. ia\<lparr>SAMLCache := v\<rparr>)),
     (''saml_cache_file'', False,
        StringField SAMLCacheFile (\<lambda>v ia. ia\<lparr>SAMLCacheFile := v\<rparr>)),
     (''target_url'', False, StringField TargetURL (\<lambda>v ia. ia\<lparr>TargetURL := v\<rparr>)),
     (''disable_remember_device'', False,
        BoolField DisableRememberDevice (\<lambda>v ia. ia\<lparr>DisableRememberDevice := v\<rparr>)),
     (''disable_sessions'', False,
        BoolField DisableSessions (\<lambda>v ia. ia\<lparr>DisableSessions := v\<rparr>)),
     (''download_browser_driver'', False,
        BoolField DownloadBrowser (\<lambda>v ia. ia\<lparr>DownloadBrowser := v\<rparr>)),
     (''browser_driver_dir'', True,
        StringField BrowserDriverDir (\<lambda>v ia. ia\<lparr>BrowserDriverDir := v\<rparr>)),
     (''headless'', False, BoolField Headless (\<lambda>v ia. ia\<lparr>Headless := v\<rparr>)),
     (''prompter'', False, StringField Prompter (\<lambda>v ia. ia\<lparr>Prompter := v\<rparr>)),
     (''kc_auth_error_message'', True,
        StringField KCAuthErrorMessage (\<lambda>v ia. ia\<lparr>KCAuthErrorMessage := v\<rparr>)),
     (''kc_auth_error_element'', True,
        StringField KCAuthErrorElement (\<lambda>v ia. ia\<lparr>KCAuthErrorElement := v\<rparr>)),
     (''kc_broker'', False, StringField KCBroker (\<lambda>v ia. ia\<lparr>KCBroker := v\<rparr>))]"

subsection \<open>The INI library: files, sections and keys\<close>

text \<open>
  A parsed file (\<^verbatim>\<open>ini.File\<close>) is a list of named sections in file order, a section
  a list of keys with their values in order. A \<^verbatim>\<open>*Section\<close> of the Go code is a
  section name together with the file it points into.
\<close>

type_synonym ini_section = "(string \<times> string) list"
type_synonym ini_file = "(string \<times> ini_section) list"

text \<open>
  The text layer of the library is a parameter: its parser, which turns the text of
  a file into sections or fails, and which depends on the load options (with
  \<^verbatim>\<open>SpaceBeforeInlineComment\<close> a comment mark inside a value starts a comment only
  after a space; quotes around a value are stripped; a trailing backslash continues
  a value on the next line); its writer, which renders sections as text; and the
  expansion of references \<^verbatim>\<open>%(name)s\<close> inside a value, which gets the file, the name
  of the section that owns the key, and the value. \<open>'t\<close> is the type of file texts.
\<close>

record LoadOptions =
  Loose :: bool
  SpaceBeforeInlineComment :: bool

record 't ini_library =
  ini_parse :: "LoadOptions \<Rightarrow> 't \<Rightarrow> string + ini_file"
  ini_print :: "ini_file \<Rightarrow> 't"
  expand_references :: "ini_file \<Rightarrow> string \<Rightarrow> string \<Rightarrow> string"

text \<open>What is at a path: nothing, or a file with its text.\<close>

datatype 't file_content = Absent | Text 't

text \<open>
  The file system: the content at every path, and for the paths that cannot be
  written the error of the write together with what the failed write leaves behind
  (nothing guarantees that a failed write is atomic).
\<close>

record 't filesystem =
  content :: "string \<Rightarrow> 't file_content"
  write_failure :: "string \<Rightarrow> (string \<times> 't file_content) option"

text \<open>
  Every file has a default section, named \<^verbatim>\<open>DEFAULT\<close>, which holds the keys that
  stand before the first section header; the empty section name stands for it.
\<close>

definition DefaultSection :: string where
  "DefaultSection = ''DEFAULT''"

definition canonical :: "string \<Rightarrow> string" where
  "canonical name = (if name = '''' then DefaultSection else name)"

definition with_default :: "ini_file \<Rightarrow> ini_file" where
  "with_default f = (if map_of f DefaultSection = None then (DefaultSection, []) # f else f)"

text \<open>
  \<^verbatim>\<open>ini.LoadSources\<close>: with \<^verbatim>\<open>Loose\<close> an absent file is an empty one; otherwise the
  file's text goes through the parser, under the options given, into a file that
  starts with its default section.
\<close>

definition LoadSources ::
  "'t ini_library \<Rightarrow> LoadOptions \<Rightarrow> 't filesystem \<Rightarrow> string \<Rightarrow> string + ini_file" where
  "LoadSources lib opts fs path =
     (case content fs path of
        Absent \<Rightarrow> if Loose opts then Inr [(DefaultSection, [])]
                  else Inl (''open '' @ path @ '': no such file or directory'')
      | Text t \<Rightarrow>
          (case ini_parse lib opts t of
             Inl msg \<Rightarrow> Inl msg
           | Inr f \<Rightarrow> Inr (with_default f)))"

text \<open>\<^verbatim>\<open>File.GetSection\<close>: the section of a name, if there is one.\<close>

definition GetSection :: "ini_file \<Rightarrow> string \<Rightarrow> ini_section option" where
  "GetSection f name = map_of f (canonical name)"

text \<open>
  \<^verbatim>\<open>File.NewSection\<close>: the empty name is an error; a section of that name is taken as
  it is; otherwise an empty section is added at the end of the file. The result is
  the file with the section in it.
\<close>

definition NewSection :: "ini_file \<Rightarrow> string \<Rightarrow> string + ini_file" where
  "NewSection f name =
     (if name = '''' then Inl ''empty section name''
      else case map_of f name of
             Some sec \<Rightarrow> Inr f
           | None \<Rightarrow> Inr (f @ [(name, [])]))"

text \<open>
  \<^verbatim>\<open>File.Section\<close>: the section of that name; a missing one is created empty, so its
  keys are those of an empty section.
\<close>

definition Section :: "ini_file \<Rightarrow> string \<Rightarrow> ini_section" where
  "Section f name = (case GetSection f name of Some sec \<Rightarrow> sec | None \<Rightarrow> [])"

text \<open>
  Child sections: a dot in a section name separates a child from its parent.
  \<open>parents name\<close> are the names that \<open>name\<close> is cut down to, at its last dot, then at
  the dot before, and so on.
\<close>

definition parents :: "string \<Rightarrow> string list" where
  "parents name =
     rev (map (\<lambda>i. take i name) (filter (\<lambda>i. name ! i = CHR ''.'') [0 ..< length name]))"

text \<open>
  \<^verbatim>\<open>Section.GetKey\<close>: a key that the section does not hold is looked for in its
  parent sections, nearest first, skipping the parents that do not exist. The result
  names the section that holds the key (its owner) and gives the stored value.
\<close>

fun find_key :: "ini_file \<Rightarrow> string list \<Rightarrow> string \<Rightarrow> (string \<times> string) option" where
  "find_key f [] key = None"
| "find_key f (name # names) key =
     (case map_of (Section f name) key of
        None \<Rightarrow> find_key f names key
      | Some v \<Rightarrow> Some (canonical name, v))"

definition GetKey :: "ini_file \<Rightarrow> string \<Rightarrow> string \<Rightarrow> (string \<times> string) option" where
  "GetKey f name key = find_key f (name # parents name) key"

text \<open>
  \<^verbatim>\<open>Key.SetValue\<close> on a key of a section, and \<^verbatim>\<open>Section.NewKey\<close> for a key the section
  does not hold yet: the value replaces the old one in place, a new key goes to the
  end of the section.
\<close>

definition SetValue :: "ini_file \<Rightarrow> string \<Rightarrow> string \<Rightarrow> string \<Rightarrow> ini_file" where
  "SetValue f owner key v =
     AList.update (canonical owner) (AList.update key v (Section f owner)) f"

subsection \<open>The INI library: reflecting a record into a section\<close>

text \<open>
  \<^verbatim>\<open>Section.ReflectFrom\<close>: for every field in declaration order, a field with
  \<^verbatim>\<open>omitempty\<close> and Go's zero value is skipped; otherwise the key is looked up with
  \<open>GetKey\<close>, so a key that only a parent section holds is found there, and the text
  of the field becomes the value of the key found; a key found nowhere is created in
  the section itself.
\<close>

fun isEmptyValue :: "accessor \<Rightarrow> IDPAccount \<Rightarrow> bool" where
  "isEmptyValue (StringField get put) ia = (get ia = '''')"
| "isEmptyValue (BoolField get put) ia = (\<not> get ia)"
| "isEmptyValue (IntField get put) ia = (get ia = 0)"

fun field_text :: "accessor \<Rightarrow> IDPAccount \<Rightarrow> string" where
  "field_text (StringField get put) ia = get ia"
| "field_text (BoolField get put) ia = FormatBool (get ia)"
| "field_text (IntField get put) ia = FormatInt (get ia)"

fun reflect_field :: "string \<Rightarrow> IDPAccount \<Rightarrow> struct_field \<Rightarrow> ini_file \<Rightarrow> ini_file" where
  "reflect_field name ia (key, omit, acc) f =
     (if omit \<and> isEmptyValue acc ia then f
      else case GetKey f name key of
             Some (owner, old) \<Rightarrow> SetValue f owner key (field_text acc ia)
           | None \<Rightarrow> SetValue f name key (field_text acc ia))"

definition ReflectFrom :: "ini_file \<Rightarrow> string \<Rightarrow> IDPAccount \<Rightarrow> string + ini_file" where
  "ReflectFrom f name ia = Inr (fold (reflect_field name ia) IDPAccount_fields f)"

subsection \<open>The INI library: mapping a section onto a record\<close>

text \<open>
  \<^verbatim>\<open>Key.String\<close>: a value that holds a reference \<^verbatim>\<open>%(name)s\<close> is expanded; a value
  without the two characters \<^verbatim>\<open>%(\<close> holds none and is returned as it is.
\<close>

fun has_reference :: "string \<Rightarrow> bool" where
  "has_reference (c1 # c2 # cs) = (c1 = CHR ''%'' \<and> c2 = CHR ''('' \<or> has_reference (c2 # cs))"
| "has_reference cs = False"

definition key_String :: "'t ini_library \<Rightarrow> ini_file \<Rightarrow> string \<Rightarrow> string \<Rightarrow> string" where
  "key_String lib f owner v =
     (if has_reference v then expand_references lib f owner v else v)"

text \<open>
  \<^verbatim>\<open>Section.MapTo\<close>: for every field in declaration order the key is looked up with
  \<open>GetKey\<close>, parents included, and read with \<^verbatim>\<open>Key.String\<close> (\<open>stored_text\<close>). A
  string field takes the value unless the value is empty; a boolean or integer field takes the value read from the text, and a text
  that is no such value leaves the field as it is (the mapping is not strict).
\<close>

fun set_from_text :: "accessor \<Rightarrow> string \<Rightarrow> IDPAccount \<Rightarrow> IDPAccount" where
  "set_from_text (StringField get put) v ia = (if v = '''' then ia else put v ia)"
| "set_from_text (BoolField get put) v ia =
     (case ParseBool v of Some b \<Rightarrow> put b ia | None \<Rightarrow> ia)"
| "set_from_text (IntField get put) v ia =
     (case ParseInt v of Some i \<Rightarrow> put i ia | None \<Rightarrow> ia)"

definition stored_text ::
  "'t ini_library \<Rightarrow> ini_file \<Rightarrow> string \<Rightarrow> string \<Rightarrow> string option" where
  "stored_text lib f name key =
     (case GetKey f name key of
        Some (owner, v) \<Rightarrow> Some (key_String lib f owner v)
      | None \<Rightarrow> None)"

fun map_field ::
  "'t ini_library \<Rightarrow> ini_file \<Rightarrow> string \<Rightarrow> struct_field \<Rightarrow> IDPAccount \<Rightarrow> IDPAccount" where
  "map_field lib f name (key, omit, acc) ia =
     (case stored_text lib f name key of
        Some v \<Rightarrow> set_from_text acc v ia
      | None \<Rightarrow> ia)"

definition MapTo ::
  "'t ini_library \<Rightarrow> ini_file \<Rightarrow> string \<Rightarrow> IDPAccount \<Rightarrow> string + IDPAccount" where
  "MapTo lib f name ia = Inr (fold (map_field lib f name) IDPAccount_fields ia)"

text \<open>
  \<^verbatim>\<open>File.SaveTo\<close>: the text that the writer renders replaces the content at the path;
  a write that fails reports its error.
\<close>

definition SaveTo ::
  "'t ini_library \<Rightarrow> ini_file \<Rightarrow> 't filesystem \<Rightarrow> string
     \<Rightarrow> string \<times> 't filesystem + 't filesystem" where
  "SaveTo lib f fs path =
     (case write_failure fs path of
        Some (msg, left) \<Rightarrow> Inl (msg, fs\<lparr>content := (content fs)(path := left)\<rparr>)
      | None \<Rightarrow> Inr (fs\<lparr>content := (content fs)(path := Text (ini_print lib f))\<rparr>))"

subsection \<open>The profile store\<close>

record ConfigManager =
  configPath :: string

text \<open>
  \<^verbatim>\<open>NewConfigManager\<close> (lines 174-186). \<^verbatim>\<open>homedir.Expand\<close> belongs to another package
  and is a parameter.
\<close>

definition NewConfigManager ::
  "(string \<Rightarrow> string + string) \<Rightarrow> string \<Rightarrow> error + ConfigManager" where
  "NewConfigManager homedir_Expand configFile =
     (let configFile = (if configFile = '''' then DefaultConfigPath else configFile) in
      case homedir_Expand configFile of
        Inl msg \<Rightarrow> Inl (External msg)
      | Inr expanded \<Rightarrow> Inr \<lparr>configPath = expanded\<rparr>)"

text \<open>The load options of line 195 (Save) and of line 220 (Load).\<close>

definition save_options :: LoadOptions where
  "save_options = \<lparr>Loose = True, SpaceBeforeInlineComment = False\<rparr>"

definition load_options :: LoadOptions where
  "load_options = \<lparr>Loose = True, SpaceBeforeInlineComment = True\<rparr>"

text \<open>
  \<^verbatim>\<open>SaveIDPAccount\<close> (lines 189-215). The result is the returned error (\<open>None\<close> for
  \<^verbatim>\<open>nil\<close>) and the file system after the call. \<^verbatim>\<open>newSec\<close> is a pointer into \<^verbatim>\<open>cfg\<close>:
  reflecting into it changes the file \<^verbatim>\<open>cfg\<close> that is saved.
\<close>

definition SaveIDPAccount ::
  "collaborators \<Rightarrow> 't ini_library \<Rightarrow> ConfigManager \<Rightarrow> string \<Rightarrow> IDPAccount \<Rightarrow> 't filesystem
     \<Rightarrow> error option \<times> 't filesystem" where
  "SaveIDPAccount env lib cm idpAccountName account fs =
     (case Validate env account of
        Some err \<Rightarrow> (Some (Wrap err ''Account validation failed''), fs)
      | None \<Rightarrow>
     (case LoadSources lib save_options fs (configPath cm) of
        Inl msg \<Rightarrow> (Some (Wrap (External msg) ''Unable to load configuration file''), fs)
      | Inr cfg \<Rightarrow>
     (case NewSection cfg idpAccountName of
        Inl msg \<Rightarrow>
          (Some (Wrap (External msg) ''Unable to build a new section in configuration file''), fs)
      | Inr cfg' \<Rightarrow>
     (case ReflectFrom cfg' idpAccountName account of
        Inl msg \<Rightarrow>
          (Some (Wrap (External msg) ''Unable to save account to configuration file''), fs)
      | Inr cfg'' \<Rightarrow>
     (case SaveTo lib cfg'' fs (configPath cm) of
        Inl (msg, fs') \<Rightarrow>
          (Some (Wrap (External msg) ''Failed to save configuration file''), fs')
      | Inr fs' \<Rightarrow> (None, fs'))))))"

text \<open>\<^verbatim>\<open>readAccount\<close> (lines 238-250).\<close>

definition readAccount :: "'t ini_library \<Rightarrow> string \<Rightarrow> ini_file \<Rightarrow> error + IDPAccount" where
  "readAccount lib idpAccountName cfg =
     (let account = NewIDPAccount in
      case MapTo lib cfg idpAccountName account of
        Inl msg \<Rightarrow> Inl (Wrap (External msg) ''Unable to map account'')
      | Inr account' \<Rightarrow> Inr account')"

text \<open>\<^verbatim>\<open>LoadIDPAccount\<close> (lines 218-236); it reads the file system and leaves it as it is.\<close>

definition LoadIDPAccount ::
  "'t ini_library \<Rightarrow> ConfigManager \<Rightarrow> string \<Rightarrow> 't filesystem \<Rightarrow> error + IDPAccount" where
  "LoadIDPAccount lib cm idpAccountName fs =
     (case LoadSources lib load_options fs (configPath cm) of
        Inl msg \<Rightarrow> Inl (Wrap (External msg) ''Unable to load configuration file'')
      | Inr cfg \<Rightarrow>
     (case readAccount lib idpAccountName cfg of
        Inl err \<Rightarrow> Inl (Wrap err ''Unable to read idp account'')
      | Inr account \<Rightarrow> Inr (account\<lparr>Name := idpAccountName\<rparr>)))"

subsection \<open>The validation rules as the specification lists them\<close>

text \<open>
  Section 4.1 of the specification numbers nine rules and says that the first one
  that fails decides. \<open>spec_rules\<close> gives the verdict of each rule, in that order:
  \<open>None\<close> when the rule passes, its error when it fails.
\<close>

definition spec_rules :: "collaborators \<Rightarrow> IDPAccount \<Rightarrow> error option list" where
  "spec_rules env ia = [
     (if (Provider ia = ''OneLogin'' \<or> Provider ia = ''AzureAD'') \<and> AppID ia = ''''
        then Some (New ''app ID empty in idp account'') else None),
     (if Provider ia = ''OneLogin'' \<and> Subdomain ia = ''''
        then Some (New ''subdomain empty in idp account'') else None),
     (if Provider ia = ''F5APM'' \<and> ResourceID ia = ''''
        then Some (New ''Resource ID empty in idp account'') else None),
     (if URL ia = '''' then Some (New ''URL empty in idp account'') else None),
     (if url_Parse_ok env (URL ia) then None else Some (New ''URL parse failed'')),
     (if Provider ia = '''' then Some (New ''Provider empty in idp account'') else None),
     (if Provider ia = ''Browser'' then None
      else if MFA ia = '''' then Some (New ''MFA empty in idp account'') else None),
     (if Profile ia = '''' then Some (New ''Profile empty in idp account'') else None),
     map_option External (ValidateAndSetPrompter env (Prompter ia))]"

fun first_failure :: "error option list \<Rightarrow> error option" where
  "first_failure [] = None"
| "first_failure (None # rules) = first_failure rules"
| "first_failure (Some e # rules) = Some e"

subsection \<open>Example values\<close>

text \<open>
  Values for the worked examples: collaborators that accept every URL and every
  prompter name; a library instance whose file text is the list of sections itself
  and which expands nothing; the path of the configuration file; a file system
  without files and one whose configuration file holds the single profile \<^verbatim>\<open>prod\<close>;
  an account for the provider \<^verbatim>\<open>Browser\<close>, the same account with an empty federation
  URN, and the account of the OneLogin scenario.
\<close>

definition permissive :: collaborators where
  "permissive = \<lparr>url_Parse_ok = (\<lambda>rawURL. True), ValidateAndSetPrompter = (\<lambda>name. None)\<rparr>"

definition plain_library :: "ini_file ini_library" where
  "plain_library =
     \<lparr>ini_parse = (\<lambda>opts t. Inr t), ini_print = (\<lambda>f. f),
      expand_references = (\<lambda>f owner v. v)\<rparr>"

definition home_config :: ConfigManager where
  "home_config = \<lparr>configPath = ''/home/u/.saml2aws''\<rparr>"

definition no_files :: "ini_file filesystem" where
  "no_files = \<lparr>content = (\<lambda>path. Absent), write_failure = (\<lambda>path. None)\<rparr>"

definition prod_file :: ini_file where
  "prod_file = [(''DEFAULT'', []), (''prod'', [(''url'', ''https://prod.example.com'')])]"

definition prod_only :: "ini_file filesystem" where
  "prod_only =
     \<lparr>content = (\<lambda>path. if path = ''/home/u/.saml2aws'' then Text prod_file else Absent),
      write_failure = (\<lambda>path. None)\<rparr>"

definition browser_account :: IDPAccount where
  "browser_account =
     NewIDPAccount\<lparr>Name := ''work'', URL := ''https://idp.example.com'', Provider := ''Browser''\<rparr>"

definition no_urn_account :: IDPAccount where
  "no_urn_account = browser_account\<lparr>AmazonWebservicesURN := ''''\<rparr>"

definition onelogin_account :: IDPAccount where
  "onelogin_account =
     NewIDPAccount\<lparr>Provider := ''OneLogin'', URL := ''https://example.onelogin.com'', MFA := ''push''\<rparr>"

subsection \<open>The value a mapped field takes\<close>

text \<open>
  What \<open>map_field\<close> puts into a field of each kind, given the field's value before:
  the stored text if there is one and it is a value of the kind, the old value
  otherwise.
\<close>

definition string_value ::
  "'t ini_library \<Rightarrow> ini_file \<Rightarrow> string \<Rightarrow> string \<Rightarrow> string \<Rightarrow> string" where
  "string_value lib f name key old =
     (case stored_text lib f name key of
        Some v \<Rightarrow> if v = '''' then old else v
      | None \<Rightarrow> old)"

definition bool_value ::
  "'t ini_library \<Rightarrow> ini_file \<Rightarrow> string \<Rightarrow> string \<Rightarrow> bool \<Rightarrow> bool" where
  "bool_value lib f name key old =
     (case stored_text lib f name key of
        Some v \<Rightarrow> (case ParseBool v of Some b \<Rightarrow> b | None \<Rightarrow> old)
      | None \<Rightarrow> old)"

definition int_value ::
  "'t ini_library \<Rightarrow> ini_file \<Rightarrow> string \<Rightarrow> string \<Rightarrow> 64 word \<Rightarrow> 64 word" where
  "int_value lib f name key old =
     (case stored_text lib f name key of
        Some v \<Rightarrow> (case ParseInt v of Some i \<Rightarrow> i | None \<Rightarrow> old)
      | None \<Rightarrow> old)"

subsection \<open>Notions used in the statements\<close>

text \<open>
  The sections that lines 200-208 of \<^verbatim>\<open>SaveIDPAccount\<close> build from the file \<open>f\<close> that
  line 195 loaded: the new section, then the record reflected into it.
\<close>

definition written_sections :: "ini_file \<Rightarrow> string \<Rightarrow> IDPAccount \<Rightarrow> string + ini_file" where
  "written_sections f name ia =
     (case NewSection f name of
        Inl msg \<Rightarrow> Inl msg
      | Inr f' \<Rightarrow> ReflectFrom f' name ia)"

text \<open>
  The text that the writer renders for the sections \<open>f\<close> is read back by the parser,
  under the given options, as the same sections: no value of \<open>f\<close> is changed by the
  quoting, comment and continuation rules of the file format.
\<close>

definition reads_back :: "'t ini_library \<Rightarrow> LoadOptions \<Rightarrow> ini_file \<Rightarrow> bool" where
  "reads_back lib opts f =
     (case ini_parse lib opts (ini_print lib f) of
        Inl msg \<Rightarrow> False
      | Inr g \<Rightarrow> with_default g = f)"

text \<open>No field of the record has a text with the characters \<^verbatim>\<open>%(\<close> of a reference.\<close>

definition no_references :: "IDPAccount \<Rightarrow> bool" where
  "no_references ia =
     list_all (\<lambda>(key, omit, acc). \<not> has_reference (field_text acc ia)) IDPAccount_fields"


section \<open>Auxiliary facts\<close>

subsection \<open>The decimal text of an integer reads back as the integer\<close>

lemma digit_char_cases:
  assumes "d < (10::nat)"
  shows "d \<in> {0, 1, 2, 3, 4, 5, 6, 7, 8, 9}"
  using assms by auto

lemma digit_of_digit_char: "d < 10 \<Longrightarrow> digit_of (digit_char d) = Some d"
  using digit_char_cases [of d] by (auto simp: digit_of_def digit_char_def)

lemma digit_char_plain:
  "d < 10 \<Longrightarrow> digit_char d \<noteq> CHR ''_'' \<and> digit_char d \<noteq> CHR ''-'' \<and> digit_char d \<noteq> CHR ''+''"
  using digit_char_cases [of d] by (auto simp: digit_char_def)

lemma digit_char_zero: "d < 10 \<Longrightarrow> digit_char d = CHR ''0'' \<longleftrightarrow> d = 0"
  using digit_char_cases [of d] by (auto simp: digit_char_def)

lemma digits_val_append:
  "digits_val base acc (xs @ ys) =
     (case digits_val base acc xs of None \<Rightarrow> None | Some a \<Rightarrow> digits_val base a ys)"
  by (induction xs arbitrary: acc) (auto split: option.splits)

lemma digits_val_nat_digits: "digits_val 10 0 (nat_digits n) = Some n"
proof (induction n rule: nat_digits.induct)
  case (1 n)
  show ?case
  proof (cases "n < 10")
    case True
    then show ?thesis
      by (subst nat_digits.simps) (simp add: digit_of_digit_char digit_char_plain)
  next
    case False
    with 1 have "digits_val 10 0 (nat_digits (n div 10)) = Some (n div 10)" by simp
    with False show ?thesis
      by (subst nat_digits.simps)
        (simp add: digits_val_append digit_of_digit_char digit_char_plain)
  qed
qed

lemma nat_digits_head:
  "\<exists>d cs. nat_digits n = digit_char d # cs \<and> d < 10 \<and> (0 < n \<longrightarrow> 0 < d)"
proof (induction n rule: nat_digits.induct)
  case (1 n)
  show ?case
  proof (cases "n < 10")
    case True
    then show ?thesis
      by (subst nat_digits.simps) auto
  next
    case False
    then have "0 < n div 10" by simp
    with 1 False obtain d cs
      where "nat_digits (n div 10) = digit_char d # cs" "d < 10" "0 < d"
      by auto
    with False show ?thesis
      by (subst nat_digits.simps) auto
  qed
qed

lemma nat_digits_no_underscore: "CHR ''_'' \<notin> set (nat_digits n)"
proof (induction n rule: nat_digits.induct)
  case (1 n)
  show ?case
  proof (cases "n < 10")
    case True
    then show ?thesis
      using digit_char_plain [of n] by (subst nat_digits.simps) auto
  next
    case False
    with 1 have "CHR ''_'' \<notin> set (nat_digits (n div 10))" by simp
    with False show ?thesis
      using digit_char_plain [of "n mod 10"] by (subst nat_digits.simps) auto
  qed
qed

lemma ParseUint_nat_digits: "ParseUint (nat_digits n) = Some n"
proof (cases "n = 0")
  case True
  have "nat_digits 0 = ''0''"
    by (subst nat_digits.simps) (simp add: digit_char_def)
  with True show ?thesis
    by (simp add: ParseUint_def split_base_def)
next
  case False
  then obtain d cs where s: "nat_digits n = digit_char d # cs" "d < 10" "0 < d"
    using nat_digits_head [of n] by auto
  then have "digit_char d \<noteq> CHR ''0''"
    by (simp add: digit_char_zero)
  with s have b: "split_base (nat_digits n) = (10, nat_digits n)"
    by (simp add: split_base_def)
  from s have ne: "nat_digits n \<noteq> []" by simp
  show ?thesis
    by (simp add: ParseUint_def b ne digits_val_nat_digits nat_digits_no_underscore)
qed

lemma ParseInt_FormatInt: "ParseInt (FormatInt w) = Some w"
proof -
  have lo: "- (2 ^ 63) \<le> sint w" and hi: "sint w < 2 ^ 63"
    using sint_ge [of w] sint_lt [of w] by simp_all
  show ?thesis
  proof (cases "sint w < 0")
    case True
    from lo have "nat (- sint w) \<le> 2 ^ 63" by simp
    with True show ?thesis
      by (simp add: ParseInt_def FormatInt_def Itoa_def ParseUint_nat_digits)
  next
    case False
    obtain d cs where s: "nat_digits (nat (sint w)) = digit_char d # cs" "d < 10"
      using nat_digits_head by blast
    from hi False have "nat (sint w) < 2 ^ 63" by simp
    with False s show ?thesis
      using ParseUint_nat_digits [of "nat (sint w)"] digit_char_plain [of d]
      by (simp add: ParseInt_def FormatInt_def Itoa_def)
  qed
qed

lemma ParseBool_FormatBool: "ParseBool (FormatBool b) = Some b"
  by (simp add: ParseBool_def FormatBool_def)

lemma ParseInt_examples:
  "ParseInt ''0x10'' = Some 16 \<and> ParseInt ''010'' = Some 8 \<and>
   ParseInt ''1_000'' = Some 1000 \<and> ParseInt ''_1'' = None \<and> ParseInt ''-'' = None \<and>
   ParseInt ''9223372036854775808'' = None"
  by (simp add: ParseInt_def ParseUint_def split_base_def digit_of_def underscoreOK_def)

subsection \<open>Keys, sections and parent sections\<close>

lemma canonical_idem: "canonical (canonical n) = canonical n"
  by (simp add: canonical_def DefaultSection_def)

lemma canonical_nonempty: "P \<noteq> '''' \<Longrightarrow> canonical P = P"
  by (simp add: canonical_def)

lemma parents_member:
  "n \<in> set (parents P) \<Longrightarrow> length n < length P \<and> CHR ''.'' \<in> set P"
  by (auto simp: parents_def in_set_conv_nth)

lemma canonical_parent_neq: "n \<in> set (parents P) \<Longrightarrow> canonical n \<noteq> canonical P"
proof
  assume n: "n \<in> set (parents P)" and eq: "canonical n = canonical P"
  from n have len: "length n < length P" and dot: "CHR ''.'' \<in> set P"
    using parents_member by auto
  from dot have "P \<noteq> ''''" by auto
  then have cp: "canonical P = P" by (simp add: canonical_def)
  show False
  proof (cases "n = ''''")
    case True
    with eq cp have "P = ''DEFAULT''" by (simp add: canonical_def DefaultSection_def)
    with dot show False by simp
  next
    case False
    with eq cp have "n = P" by (simp add: canonical_def)
    with len show False by simp
  qed
qed

lemma GetSection_SetValue:
  "GetSection (SetValue f owner k v) n =
     (if canonical n = canonical owner then Some (AList.update k v (Section f owner))
      else GetSection f n)"
  by (simp add: GetSection_def SetValue_def update_conv' canonical_idem)

lemma Section_canonical: "canonical n = canonical m \<Longrightarrow> Section f n = Section f m"
  by (simp add: Section_def GetSection_def)

lemma Section_SetValue_whole:
  "Section (SetValue f owner k v) n =
     (if canonical n = canonical owner then AList.update k v (Section f owner)
      else Section f n)"
  by (simp add: Section_def GetSection_SetValue)

lemma Section_SetValue:
  "map_of (Section (SetValue f owner k' v) n) k =
     (if canonical n = canonical owner \<and> k = k' then Some v else map_of (Section f n) k)"
  using Section_canonical [of n owner f]
  by (auto simp: Section_SetValue_whole update_conv')

lemma find_key_owner:
  "find_key f names k = Some (owner, v) \<Longrightarrow> \<exists>n \<in> set names. owner = canonical n"
  by (induction names) (auto split: option.splits)

lemma find_key_other_key:
  "k \<noteq> k' \<Longrightarrow> find_key (SetValue f owner k' v) names k = find_key f names k"
  by (induction names) (auto simp: Section_SetValue split: option.splits)

lemma find_key_set_found:
  "find_key f names k = Some (owner, old) \<Longrightarrow>
   find_key (SetValue f owner k v) names k = Some (owner, v)"
proof (induction names)
  case Nil
  then show ?case by simp
next
  case (Cons n names)
  from find_key_owner [OF Cons.prems] have c: "canonical owner = owner"
    by (auto simp: canonical_idem)
  show ?case
  proof (cases "map_of (Section f n) k")
    case None
    with Cons show ?thesis
      using c by (auto simp: Section_SetValue)
  next
    case (Some a)
    with Cons.prems show ?thesis
      by (auto simp: Section_SetValue canonical_idem)
  qed
qed

lemma find_key_set_new:
  "find_key (SetValue f n k v) (n # names) k = Some (canonical n, v)"
  by (simp add: Section_SetValue)

lemma GetKey_reflect_same:
  assumes "\<not> (omit \<and> isEmptyValue acc ia)"
  shows "GetKey (reflect_field P ia (k, omit, acc) f) P k =
     Some (case GetKey f P k of Some (owner, old) \<Rightarrow> owner | None \<Rightarrow> canonical P,
           field_text acc ia)"
proof (cases "GetKey f P k")
  case None
  with assms show ?thesis
    by (auto simp: GetKey_def find_key_set_new simp del: find_key.simps)
next
  case (Some a)
  obtain owner old where a: "a = (owner, old)" by (cases a)
  with Some have "find_key f (P # parents P) k = Some (owner, old)"
    by (simp add: GetKey_def)
  from find_key_set_found [OF this] Some a assms show ?thesis
    by (auto simp: GetKey_def simp del: find_key.simps)
qed

lemma GetKey_reflect_other:
  "k \<noteq> k' \<Longrightarrow> GetKey (reflect_field P ia (k', omit, acc) f) P' k = GetKey f P' k"
  by (auto simp: GetKey_def find_key_other_key simp del: find_key.simps split: option.splits)

lemma GetKey_fold_reflect_other:
  "k \<notin> fst ` set fs \<Longrightarrow> GetKey (fold (reflect_field P ia) fs f) P' k = GetKey f P' k"
proof (induction fs arbitrary: f)
  case Nil
  then show ?case by simp
next
  case (Cons fld fs)
  obtain k' omit acc where fld: "fld = (k', omit, acc)" by (cases fld) auto
  with Cons.prems have "k \<noteq> k'" "k \<notin> fst ` set fs" by auto
  with Cons.IH [of "reflect_field P ia fld f"] show ?case
    by (simp add: fld GetKey_reflect_other del: reflect_field.simps)
qed

lemma GetKey_fold_reflect:
  "distinct (map fst fs) \<Longrightarrow>
   GetKey (fold (reflect_field P ia) fs f) P k =
     (case map_of fs k of
        None \<Rightarrow> GetKey f P k
      | Some (omit, acc) \<Rightarrow>
          if omit \<and> isEmptyValue acc ia then GetKey f P k
          else Some (case GetKey f P k of Some (owner, old) \<Rightarrow> owner | None \<Rightarrow> canonical P,
                     field_text acc ia))"
proof (induction fs arbitrary: f)
  case Nil
  then show ?case by simp
next
  case (Cons fld fs)
  obtain k' omit acc where fld: "fld = (k', omit, acc)" by (cases fld) auto
  from Cons.prems have d: "distinct (map fst fs)" and nin: "k' \<notin> fst ` set fs"
    by (auto simp: fld)
  define g where "g = reflect_field P ia (k', omit, acc) f"
  have step: "fold (reflect_field P ia) (fld # fs) f = fold (reflect_field P ia) fs g"
    by (simp add: fld g_def del: reflect_field.simps)
  show ?case
  proof (cases "k = k'")
    case True
    from nin have none: "map_of fs k' = None"
      by (simp add: map_of_eq_None_iff)
    have keep: "GetKey (fold (reflect_field P ia) fs g) P k' = GetKey g P k'"
      using nin by (rule GetKey_fold_reflect_other)
    show ?thesis
    proof (cases "omit \<and> isEmptyValue acc ia")
      case True
      then have "g = f" by (simp add: g_def)
      with keep \<open>k = k'\<close> True show ?thesis
        unfolding step by (simp add: fld)
    next
      case False
      have "GetKey g P k' =
          Some (case GetKey f P k' of Some (owner, old) \<Rightarrow> owner | None \<Rightarrow> canonical P,
                field_text acc ia)"
        unfolding g_def using False by (rule GetKey_reflect_same)
      with keep \<open>k = k'\<close> False show ?thesis
        unfolding step by (auto simp: fld)
    qed
  next
    case False
    have "GetKey g P k = GetKey f P k"
      unfolding g_def using False by (rule GetKey_reflect_other)
    with Cons.IH [OF d, of g] False show ?thesis
      unfolding step by (simp add: fld split: option.splits prod.splits)
  qed
qed

lemma GetSection_reflect_frame:
  assumes "canonical B \<notin> canonical ` set (P # parents P)"
  shows "GetSection (reflect_field P ia fld f) B = GetSection f B"
proof -
  obtain k omit acc where fld: "fld = (k, omit, acc)" by (cases fld) auto
  show ?thesis
  proof (cases "GetKey f P k")
    case None
    with assms show ?thesis
      by (auto simp: fld GetSection_SetValue)
  next
    case (Some a)
    obtain owner old where a: "a = (owner, old)" by (cases a)
    with Some have "find_key f (P # parents P) k = Some (owner, old)"
      by (simp add: GetKey_def)
    from find_key_owner [OF this] obtain n
      where "n \<in> set (P # parents P)" "owner = canonical n" by auto
    with assms have "canonical B \<noteq> canonical owner"
      by (auto simp: canonical_idem)
    with Some a show ?thesis
      by (auto simp: fld GetSection_SetValue)
  qed
qed

lemma GetSection_fold_reflect_frame:
  assumes "canonical B \<notin> canonical ` set (P # parents P)"
  shows "GetSection (fold (reflect_field P ia) fs f) B = GetSection f B"
  by (induction fs arbitrary: f) (simp_all add: GetSection_reflect_frame [OF assms])


lemma find_key_no_keys:
  "\<forall>n \<in> set names. Section f n = [] \<Longrightarrow> find_key f names k = None"
  by (induction names) auto

subsection \<open>Saving and mapping, step by step\<close>

lemma save_result:
  assumes "Validate env account = None"
    and "LoadSources lib save_options fs (configPath cm) = Inr f"
    and "NewSection f P = Inr f1"
    and "write_failure fs (configPath cm) = None"
  shows "SaveIDPAccount env lib cm P account fs =
     (None, fs\<lparr>content := (content fs)(configPath cm :=
         Text (ini_print lib (fold (reflect_field P account) IDPAccount_fields f1)))\<rparr>)"
  using assms by (simp add: SaveIDPAccount_def ReflectFrom_def SaveTo_def)

lemma map_field_string:
  assumes "\<And>x. put (get x) x = x"
  shows "map_field lib f P (k, omit, StringField get put) x =
     put (string_value lib f P k (get x)) x"
  using assms by (cases "stored_text lib f P k") (auto simp: string_value_def)

lemma map_field_bool:
  assumes "\<And>x. put (get x) x = x"
  shows "map_field lib f P (k, omit, BoolField get put) x =
     put (bool_value lib f P k (get x)) x"
  using assms
  by (cases "stored_text lib f P k") (auto simp: bool_value_def split: option.splits)

lemma map_field_int:
  assumes "\<And>x. put (get x) x = x"
  shows "map_field lib f P (k, omit, IntField get put) x =
     put (int_value lib f P k (get x)) x"
  using assms
  by (cases "stored_text lib f P k") (auto simp: int_value_def split: option.splits)

lemma MapTo_unfold:
  "fold (map_field lib f P) IDPAccount_fields d =
     d\<lparr>Name := string_value lib f P ''name'' (Name d),
       AppID := string_value lib f P ''app_id'' (AppID d),
       URL := string_value lib f P ''url'' (URL d),
       Username := string_value lib f P ''username'' (Username d),
       Provider := string_value lib f P ''provider'' (Provider d),
       BrowserType := string_value lib f P ''browser_type'' (BrowserType d),
       BrowserExecutablePath := string_value lib f P ''browser_executable_path'' (BrowserExecutablePath d),
       BrowserAutoFill := bool_value lib f P ''browser_autofill'' (BrowserAutoFill d),
       MFA := string_value lib f P ''mfa'' (MFA d),
       MFAIPAddress := string_value lib f P ''mfa_ip_address'' (MFAIPAddress d),
       SkipVerify := bool_value lib f P ''skip_verify'' (SkipVerify d),
       Timeout := int_value lib f P ''timeout'' (Timeout d),
       AmazonWebservicesURN := string_value lib f P ''aws_urn'' (AmazonWebservicesURN d),
       SessionDuration := int_value lib f P ''aws_session_duration'' (SessionDuration d),
       Profile := string_value lib f P ''aws_profile'' (Profile d),
       ResourceID := string_value lib f P ''resource_id'' (ResourceID d),
       Subdomain := string_value lib f P ''subdomain'' (Subdomain d),
       RoleARN := string_value lib f P ''role_arn'' (RoleARN d),
       PolicyFile := string_value lib f P ''policy_file'' (PolicyFile d),
       PolicyARNs := string_value lib f P ''policy_arn_list'' (PolicyARNs d),
       Region := string_value lib f P ''region'' (Region d),
       HttpAttemptsCount := string_value lib f P ''http_attempts_count'' (HttpAttemptsCount d),
       HttpRetryDelay := string_value lib f P ''http_retry_delay'' (HttpRetryDelay d),
       CredentialsFile := string_value lib f P ''credentials_file'' (CredentialsFile d),
       SAMLCache := bool_value lib f P ''saml_cache'' (SAMLCache d),
       SAMLCacheFile := string_value lib f P ''saml_cache_file'' (SAMLCacheFile d),
       TargetURL := string_value lib f P ''target_url'' (TargetURL d),
       DisableRememberDevice := bool_value lib f P ''disable_remember_device'' (DisableRememberDevice d),
       DisableSessions := bool_value lib f P ''disable_sessions'' (DisableSessions d),
       DownloadBrowser := bool_value lib f P ''download_browser_driver'' (DownloadBrowser d),
       BrowserDriverDir := string_value lib f P ''browser_driver_dir'' (BrowserDriverDir d),
       Headless := bool_value lib f P ''headless'' (Headless d),
       Prompter := string_value lib f P ''prompter'' (Prompter d),
       KCAuthErrorMessage := string_value lib f P ''kc_auth_error_message'' (KCAuthErrorMessage d),
       KCAuthErrorElement := string_value lib f P ''kc_auth_error_element'' (KCAuthErrorElement d),
       KCBroker := string_value lib f P ''kc_broker'' (KCBroker d)\<rparr>"
  by (simp add: IDPAccount_fields_def map_field_string map_field_bool map_field_int
      del: map_field.simps)

lemma distinct_keys: "distinct (map fst IDPAccount_fields)"
  by (simp add: IDPAccount_fields_def)

lemma defaults_overwritten:
  "NewIDPAccount\<lparr>Name := Name ia,
       AppID := AppID ia,
       URL := URL ia,
       Username := Username ia,
       Provider := Provider ia,
       BrowserType := BrowserType ia,
       BrowserExecutablePath := BrowserExecutablePath ia,
       BrowserAutoFill := BrowserAutoFill ia,
       MFA := MFA ia,
       MFAIPAddress := MFAIPAddress ia,
       SkipVerify := SkipVerify ia,
       Timeout := Timeout ia,
       AmazonWebservicesURN :=
         (if AmazonWebservicesURN ia = '''' then DefaultAmazonWebservicesURN
          else AmazonWebservicesURN ia),
       SessionDuration := SessionDuration ia,
       Profile := (if Profile ia = '''' then DefaultProfile else Profile ia),
       ResourceID := ResourceID ia,
       Subdomain := Subdomain ia,
       RoleARN := RoleARN ia,
       PolicyFile := PolicyFile ia,
       PolicyARNs := PolicyARNs ia,
       Region := Region ia,
       HttpAttemptsCount := HttpAttemptsCount ia,
       HttpRetryDelay := HttpRetryDelay ia,
       CredentialsFile := CredentialsFile ia,
       SAMLCache := SAMLCache ia,
       SAMLCacheFile := SAMLCacheFile ia,
       TargetURL := TargetURL ia,
       DisableRememberDevice := DisableRememberDevice ia,
       DisableSessions := DisableSessions ia,
       DownloadBrowser := DownloadBrowser ia,
       BrowserDriverDir := BrowserDriverDir ia,
       Headless := Headless ia,
       Prompter := Prompter ia,
       KCAuthErrorMessage := KCAuthErrorMessage ia,
       KCAuthErrorElement := KCAuthErrorElement ia,
       KCBroker := KCBroker ia\<rparr> =
   ia\<lparr>AmazonWebservicesURN :=
        (if AmazonWebservicesURN ia = '''' then DefaultAmazonWebservicesURN
         else AmazonWebservicesURN ia),
      Profile := (if Profile ia = '''' then DefaultProfile else Profile ia)\<rparr>"
  by (cases ia) (simp add: NewIDPAccount_def)

lemma if_empty_same: "(if s = [] then [] else s) = s"
  by simp

lemma if_false_same: "(if \<not> b then False else b) = b"
  by simp

text \<open>
  Mapping back a section that holds, for every field that was not omitted, the text
  of that field of \<open>ia\<close>: every field of the default record takes the value of \<open>ia\<close>,
  except that an empty federation URN or profile leaves the default in place.
\<close>

lemma roundtrip_fields:
  assumes texts: "\<And>k. stored_text lib f P k =
      (case map_of IDPAccount_fields k of
         None \<Rightarrow> None
       | Some (omit, acc) \<Rightarrow>
           if omit \<and> isEmptyValue acc ia then None else Some (field_text acc ia))"
  shows "fold (map_field lib f P) IDPAccount_fields NewIDPAccount =
     ia\<lparr>AmazonWebservicesURN :=
          (if AmazonWebservicesURN ia = '''' then DefaultAmazonWebservicesURN
           else AmazonWebservicesURN ia),
        Profile := (if Profile ia = '''' then DefaultProfile else Profile ia)\<rparr>"
proof -
  have sv: "\<And>k old. string_value lib f P k old =
      (case map_of IDPAccount_fields k of
         None \<Rightarrow> old
       | Some (omit, acc) \<Rightarrow>
           if omit \<and> isEmptyValue acc ia \<or> field_text acc ia = '''' then old
           else field_text acc ia)"
    by (auto simp: string_value_def texts split: option.splits)
  have bv: "\<And>k old. bool_value lib f P k old =
      (case map_of IDPAccount_fields k of
         None \<Rightarrow> old
       | Some (omit, acc) \<Rightarrow>
           if omit \<and> isEmptyValue acc ia then old
           else (case ParseBool (field_text acc ia) of Some b \<Rightarrow> b | None \<Rightarrow> old))"
    by (auto simp: bool_value_def texts split: option.splits)
  have iv: "\<And>k old. int_value lib f P k old =
      (case map_of IDPAccount_fields k of
         None \<Rightarrow> old
       | Some (omit, acc) \<Rightarrow>
           if omit \<and> isEmptyValue acc ia then old
           else (case ParseInt (field_text acc ia) of Some i \<Rightarrow> i | None \<Rightarrow> old))"
    by (auto simp: int_value_def texts split: option.splits)
  have "fold (map_field lib f P) IDPAccount_fields NewIDPAccount =
     NewIDPAccount\<lparr>Name := Name ia,
       AppID := AppID ia,
       URL := URL ia,
       Username := Username ia,
       Provider := Provider ia,
       BrowserType := BrowserType ia,
       BrowserExecutablePath := BrowserExecutablePath ia,
       BrowserAutoFill := BrowserAutoFill ia,
       MFA := MFA ia,
       MFAIPAddress := MFAIPAddress ia,
       SkipVerify := SkipVerify ia,
       Timeout := Timeout ia,
       AmazonWebservicesURN :=
         (if AmazonWebservicesURN ia = '''' then DefaultAmazonWebservicesURN
          else AmazonWebservicesURN ia),
       SessionDuration := SessionDuration ia,
       Profile := (if Profile ia = '''' then DefaultProfile else Profile ia),
       ResourceID := ResourceID ia,
       Subdomain := Subdomain ia,
       RoleARN := RoleARN ia,
       PolicyFile := PolicyFile ia,
       PolicyARNs := PolicyARNs ia,
       Region := Region ia,
       HttpAttemptsCount := HttpAttemptsCount ia,
       HttpRetryDelay := HttpRetryDelay ia,
       CredentialsFile := CredentialsFile ia,
       SAMLCache := SAMLCache ia,
       SAMLCacheFile := SAMLCacheFile ia,
       TargetURL := TargetURL ia,
       DisableRememberDevice := DisableRememberDevice ia,
       DisableSessions := DisableSessions ia,
       DownloadBrowser := DownloadBrowser ia,
       BrowserDriverDir := BrowserDriverDir ia,
       Headless := Headless ia,
       Prompter := Prompter ia,
       KCAuthErrorMessage := KCAuthErrorMessage ia,
       KCAuthErrorElement := KCAuthErrorElement ia,
       KCBroker := KCBroker ia\<rparr>"
    unfolding MapTo_unfold
    by (simp add: sv bv iv IDPAccount_fields_def NewIDPAccount_def ParseInt_FormatInt
        ParseBool_FormatBool if_empty_same if_false_same)
  then show ?thesis
    by (simp only: defaults_overwritten)
qed


lemma GetKey_no_keys:
  "\<forall>n \<in> set (P # parents P). Section f n = [] \<Longrightarrow> GetKey f P k = None"
  unfolding GetKey_def by (rule find_key_no_keys)

lemma NewSection_empty_file:
  "NewSection [(DefaultSection, [])] P = Inr f1 \<Longrightarrow> Section f1 n = []"
  by (auto simp: NewSection_def Section_def GetSection_def split: if_splits option.splits)

lemma key_String_plain: "\<not> has_reference v \<Longrightarrow> key_String lib f owner v = v"
  by (simp add: key_String_def)

lemma no_references_field:
  "no_references ia \<Longrightarrow> map_of IDPAccount_fields k = Some (omit, acc) \<Longrightarrow>
   \<not> has_reference (field_text acc ia)"
  by (auto simp: no_references_def list_all_iff dest: map_of_SomeD)

lemma stored_text_written:
  assumes ws: "written_sections [(DefaultSection, [])] P ia = Inr f'"
    and nr: "no_references ia"
  shows "stored_text lib f' P k =
      (case map_of IDPAccount_fields k of
         None \<Rightarrow> None
       | Some (omit, acc) \<Rightarrow>
           if omit \<and> isEmptyValue acc ia then None else Some (field_text acc ia))"
proof -
  from ws obtain f1 where n: "NewSection [(DefaultSection, [])] P = Inr f1"
    and f': "f' = fold (reflect_field P ia) IDPAccount_fields f1"
    by (auto simp: written_sections_def ReflectFrom_def split: sum.splits)
  have none: "GetKey f1 P k = None"
    by (rule GetKey_no_keys) (simp add: NewSection_empty_file [OF n])
  show ?thesis
  proof (cases "map_of IDPAccount_fields k")
    case None
    then show ?thesis
      by (simp add: stored_text_def f' GetKey_fold_reflect [OF distinct_keys] none)
  next
    case (Some a)
    obtain omit acc where a: "a = (omit, acc)" by (cases a)
    from no_references_field [OF nr] Some a
    have "\<not> has_reference (field_text acc ia)" by simp
    with Some a show ?thesis
      by (simp add: stored_text_def f' GetKey_fold_reflect [OF distinct_keys] none
          key_String_plain)
  qed
qed


lemma load_after_read:
  assumes "LoadSources lib load_options fs (configPath cm) = Inr f"
  shows "LoadIDPAccount lib cm P fs =
     Inr ((fold (map_field lib f P) IDPAccount_fields NewIDPAccount)\<lparr>Name := P\<rparr>)"
  using assms by (simp add: LoadIDPAccount_def readAccount_def MapTo_def)

text \<open>
  Saving to an empty file and loading again, when the text written reads back as
  written and no value holds a reference: every field comes back, except that an
  empty federation URN or profile comes back as the default.
\<close>

lemma load_after_save:
  assumes v: "Validate env account = None"
    and e: "LoadSources lib save_options fs (configPath cm) = Inr [(DefaultSection, [])]"
    and w: "write_failure fs (configPath cm) = None"
    and ws: "written_sections [(DefaultSection, [])] P account = Inr f'"
    and rb: "reads_back lib load_options f'"
    and nr: "no_references account"
  shows "fst (SaveIDPAccount env lib cm P account fs) = None \<and>
     LoadIDPAccount lib cm P (snd (SaveIDPAccount env lib cm P account fs)) =
       Inr (account\<lparr>AmazonWebservicesURN :=
              (if AmazonWebservicesURN account = '''' then DefaultAmazonWebservicesURN
               else AmazonWebservicesURN account),
            Profile := (if Profile account = '''' then DefaultProfile else Profile account),
            Name := P\<rparr>)"
proof -
  from ws obtain f1 where n: "NewSection [(DefaultSection, [])] P = Inr f1"
    and f': "f' = fold (reflect_field P account) IDPAccount_fields f1"
    by (auto simp: written_sections_def ReflectFrom_def split: sum.splits)
  note s = save_result [OF v e n w]
  have l: "LoadSources lib load_options (snd (SaveIDPAccount env lib cm P account fs))
      (configPath cm) = Inr f'"
    using rb unfolding s
    by (simp add: LoadSources_def reads_back_def f' split: sum.splits)
  have m: "fold (map_field lib f' P) IDPAccount_fields NewIDPAccount =
      account\<lparr>AmazonWebservicesURN :=
          (if AmazonWebservicesURN account = '''' then DefaultAmazonWebservicesURN
           else AmazonWebservicesURN account),
        Profile := (if Profile account = '''' then DefaultProfile else Profile account)\<rparr>"
    by (rule roundtrip_fields) (rule stored_text_written [OF ws nr])
  show ?thesis
    unfolding load_after_read [OF l] m by (simp add: s)
qed

lemma valid_profile: "Validate env ia = None \<Longrightarrow> Profile ia \<noteq> ''''"
  by (auto simp: Validate_def split: option.splits if_splits)

subsection \<open>Facts about the example values\<close>

lemma parents_dev: "parents ''dev'' = []"
  by code_simp


lemma browser_account_valid: "Validate permissive browser_account = None"
  by (simp add: Validate_def provider_checks_def permissive_def browser_account_def
      NewIDPAccount_def DefaultProfile_def)

lemma no_urn_account_valid: "Validate permissive no_urn_account = None"
  by (simp add: Validate_def provider_checks_def permissive_def browser_account_def
      no_urn_account_def NewIDPAccount_def DefaultProfile_def)

lemma browser_account_no_references: "no_references browser_account"
  by (simp add: no_references_def IDPAccount_fields_def browser_account_def NewIDPAccount_def
      FormatBool_def FormatInt_def Itoa_def nat_digits.simps digit_char_def
      DefaultAmazonWebservicesURN_def DefaultSessionDuration_def DefaultProfile_def)

lemma no_urn_account_no_references: "no_references no_urn_account"
  by (simp add: no_references_def IDPAccount_fields_def browser_account_def NewIDPAccount_def
      no_urn_account_def FormatBool_def FormatInt_def Itoa_def nat_digits.simps digit_char_def
      DefaultAmazonWebservicesURN_def DefaultSessionDuration_def DefaultProfile_def)

lemma no_files_read:
  "LoadSources plain_library save_options no_files (configPath home_config)
     = Inr [(DefaultSection, [])]"
  by (simp add: LoadSources_def no_files_def save_options_def)

lemma no_files_writable: "write_failure no_files (configPath home_config) = None"
  by (simp add: no_files_def)

lemma written_dev:
  "written_sections [(DefaultSection, [])] ''dev'' ia =
     Inr (fold (reflect_field ''dev'' ia) IDPAccount_fields
            [(DefaultSection, []), (''dev'', [])])"
  by (simp add: written_sections_def NewSection_def ReflectFrom_def DefaultSection_def)

lemma plain_reads_back:
  assumes "GetSection f DefaultSection = Some sec"
  shows "reads_back plain_library opts (fold (reflect_field ''dev'' ia) IDPAccount_fields f)"
proof -
  have "canonical DefaultSection \<notin> canonical ` set (''dev'' # parents ''dev'')"
    by (simp add: parents_dev canonical_def DefaultSection_def)
  from GetSection_fold_reflect_frame [OF this] assms
  have "GetSection (fold (reflect_field ''dev'' ia) IDPAccount_fields f) DefaultSection
      = Some sec"
    by simp
  then show ?thesis
    by (simp add: reads_back_def plain_library_def with_default_def GetSection_def
        canonical_def DefaultSection_def)
qed

lemma plain_reads_back_dev:
  "reads_back plain_library opts
     (fold (reflect_field ''dev'' ia) IDPAccount_fields [(DefaultSection, []), (''dev'', [])])"
  by (rule plain_reads_back [of _ "[]"])
    (simp add: GetSection_def canonical_def DefaultSection_def)




section \<open>The claims\<close>

text \<open>
  C1 (as the code has it). Round trip: a record that passes validation and whose
  federation URN is not empty is saved under a non-empty profile name \<open>P\<close> to a
  backing file that Save reads as empty and that can be written. If the text that
  Save wrote is read back by Load as the sections Save built, and no field holds the
  characters of a reference, then the save succeeds and loading \<open>P\<close> returns the
  saved record, every field as saved, with its name set to \<open>P\<close>.
\<close>

theorem save_then_load_roundtrip:
  assumes "Validate env account = None"
    and "LoadSources lib save_options fs (configPath cm) = Inr [(DefaultSection, [])]"
    and "write_failure fs (configPath cm) = None"
    and "P \<noteq> ''''"
    and "AmazonWebservicesURN account \<noteq> ''''"
    and "written_sections [(DefaultSection, [])] P account = Inr f'"
    and "reads_back lib load_options f'"
    and "no_references account"
  shows "fst (SaveIDPAccount env lib cm P account fs) = None \<and>
         LoadIDPAccount lib cm P (snd (SaveIDPAccount env lib cm P account fs))
           = Inr (account\<lparr>Name := P\<rparr>)"
  using load_after_save [OF assms(1) assms(2) assms(3) assms(6) assms(7) assms(8)]
    assms(5) valid_profile [OF assms(1)]
  by simp

theorem save_then_load_roundtrip_witness:
  "Validate permissive browser_account = None \<and>
   LoadSources plain_library save_options no_files (configPath home_config)
     = Inr [(DefaultSection, [])] \<and>
   write_failure no_files (configPath home_config) = None \<and>
   ''dev'' \<noteq> '''' \<and>
   AmazonWebservicesURN browser_account \<noteq> '''' \<and>
   reads_back plain_library load_options
     (fold (reflect_field ''dev'' browser_account) IDPAccount_fields
        [(DefaultSection, []), (''dev'', [])]) \<and>
   no_references browser_account \<and>
   fst (SaveIDPAccount permissive plain_library home_config ''dev'' browser_account no_files)
     = None \<and>
   LoadIDPAccount plain_library home_config ''dev''
       (snd (SaveIDPAccount permissive plain_library home_config ''dev'' browser_account
          no_files))
     = Inr (browser_account\<lparr>Name := ''dev''\<rparr>)"
proof -
  have u: "AmazonWebservicesURN browser_account \<noteq> ''''"
    by (simp add: browser_account_def NewIDPAccount_def DefaultAmazonWebservicesURN_def)
  have p: "''dev'' \<noteq> ''''" by simp
  show ?thesis
    using save_then_load_roundtrip [OF browser_account_valid no_files_read no_files_writable
        p u written_dev plain_reads_back_dev browser_account_no_references]
      browser_account_valid no_files_read no_files_writable u plain_reads_back_dev
      browser_account_no_references
    by simp
qed

text \<open>
  The claim C1 as it was stated fails: the example account with an empty federation
  URN passes validation and is saved under \<^verbatim>\<open>dev\<close> to an absent file; loading \<^verbatim>\<open>dev\<close>
  returns a record whose federation URN is the default, not the empty one saved.
\<close>

theorem empty_urn_does_not_round_trip:
  "Validate permissive no_urn_account = None \<and>
   AmazonWebservicesURN no_urn_account = '''' \<and>
   fst (SaveIDPAccount permissive plain_library home_config ''dev'' no_urn_account no_files)
     = None \<and>
   (case LoadIDPAccount plain_library home_config ''dev''
           (snd (SaveIDPAccount permissive plain_library home_config ''dev'' no_urn_account
              no_files)) of
      Inl e \<Rightarrow> None
    | Inr loaded \<Rightarrow> Some (AmazonWebservicesURN loaded)) = Some ''urn:amazon:webservices''"
proof -
  note r = load_after_save [OF no_urn_account_valid no_files_read no_files_writable
      written_dev plain_reads_back_dev no_urn_account_no_references]
  have u: "AmazonWebservicesURN no_urn_account = ''''"
    by (simp add: no_urn_account_def)
  from r show ?thesis
    by (simp add: no_urn_account_valid u DefaultAmazonWebservicesURN_def)
qed

text \<open>
  C2. Save validates first: when validation fails with an error, Save returns that
  error wrapped with the message "Account validation failed", and the file system is
  the one it was given, whatever its state.
\<close>

theorem save_invalid_account_writes_nothing:
  "Validate env account = Some err \<Longrightarrow>
   SaveIDPAccount env lib cm name account fs
     = (Some (Wrap err ''Account validation failed''), fs)"
  by (simp add: SaveIDPAccount_def)

theorem save_invalid_account_writes_nothing_witness:
  "Validate permissive NewIDPAccount = Some (New ''URL empty in idp account'') \<and>
   SaveIDPAccount permissive plain_library home_config ''dev'' NewIDPAccount prod_only
     = (Some (Wrap (New ''URL empty in idp account'') ''Account validation failed''), prod_only) \<and>
   map_option Error
       (fst (SaveIDPAccount permissive plain_library home_config ''dev'' NewIDPAccount prod_only))
     = Some ''Account validation failed: URL empty in idp account''"
proof -
  have v: "Validate permissive NewIDPAccount = Some (New ''URL empty in idp account'')"
    by (simp add: Validate_def provider_checks_def NewIDPAccount_def)
  show ?thesis
    using save_invalid_account_writes_nothing
      [OF v, of plain_library home_config "''dev''" prod_only] v
    by simp
qed




text \<open>
  C4. Validate returns the verdict of the first failing rule among the nine rules
  of the specification, taken in their order, and no error when none fails; a record
  with every field empty fails with the URL-empty error.
\<close>

theorem validate_first_failing_rule:
  "Validate env ia = first_failure (spec_rules env ia) \<and>
   length (spec_rules env ia) = 9 \<and>
   Validate env (NewIDPAccount\<lparr>AmazonWebservicesURN := '''', SessionDuration := 0,
     Profile := ''''\<rparr>) = Some (New ''URL empty in idp account'')"
  by (auto simp: Validate_def provider_checks_def spec_rules_def NewIDPAccount_def
      split: option.splits)




text \<open>
  C6. With the provider \<^verbatim>\<open>Browser\<close>, a non-empty URL that parses, a non-empty profile
  and an accepted prompter, validation succeeds with an empty MFA field; with any
  other provider an empty MFA field makes validation fail.
\<close>

theorem mfa_required_unless_browser:
  "(Provider ia = ''Browser'' \<and> URL ia \<noteq> '''' \<and> url_Parse_ok env (URL ia) \<and>
    Profile ia \<noteq> '''' \<and> ValidateAndSetPrompter env (Prompter ia) = None
      \<longrightarrow> Validate env (ia\<lparr>MFA := ''''\<rparr>) = None) \<and>
   (Provider ia \<noteq> ''Browser'' \<and> MFA ia = '''' \<longrightarrow> Validate env ia \<noteq> None)"
  by (auto simp: Validate_def provider_checks_def split: option.splits)

theorem mfa_required_unless_browser_witness:
  "Validate permissive (browser_account\<lparr>MFA := ''''\<rparr>) = None \<and>
   Validate permissive (browser_account\<lparr>Provider := ''Okta''\<rparr>)
     = Some (New ''MFA empty in idp account'')"
proof -
  have b: "Provider browser_account = ''Browser'' \<and> URL browser_account \<noteq> '''' \<and>
      url_Parse_ok permissive (URL browser_account) \<and> Profile browser_account \<noteq> '''' \<and>
      ValidateAndSetPrompter permissive (Prompter browser_account) = None"
    by (simp add: browser_account_def permissive_def NewIDPAccount_def DefaultProfile_def)
  have o: "Provider (browser_account\<lparr>Provider := ''Okta''\<rparr>) \<noteq> ''Browser'' \<and>
      MFA (browser_account\<lparr>Provider := ''Okta''\<rparr>) = ''''"
    by (simp add: browser_account_def NewIDPAccount_def)
  have "Validate permissive (browser_account\<lparr>Provider := ''Okta''\<rparr>) \<noteq> None"
    using mfa_required_unless_browser [of "browser_account\<lparr>Provider := ''Okta''\<rparr>" permissive] o
    by blast
  moreover have "Validate permissive (browser_account\<lparr>MFA := ''''\<rparr>) = None"
    using mfa_required_unless_browser [of browser_account permissive] b by blast
  ultimately show ?thesis
    by (simp add: Validate_def provider_checks_def browser_account_def permissive_def
        NewIDPAccount_def DefaultProfile_def)
qed




text \<open>
  C8. The OneLogin scenario: the default record with provider \<^verbatim>\<open>OneLogin\<close>, URL
  \<^verbatim>\<open>https://example.onelogin.com\<close> and MFA \<^verbatim>\<open>push\<close> fails validation with the app ID
  error; with any non-empty app ID it fails with the subdomain error; with any
  non-empty subdomain as well it passes, given that the URL parses and that the
  prompter check accepts the empty prompter name of the default record.
\<close>

theorem onelogin_scenario:
  assumes "url_Parse_ok env ''https://example.onelogin.com''"
    and "ValidateAndSetPrompter env '''' = None"
    and "appID \<noteq> ''''" and "subdomain \<noteq> ''''"
  shows "Validate env onelogin_account = Some (New ''app ID empty in idp account'') \<and>
         Validate env (onelogin_account\<lparr>AppID := appID\<rparr>)
           = Some (New ''subdomain empty in idp account'') \<and>
         Validate env (onelogin_account\<lparr>AppID := appID, Subdomain := subdomain\<rparr>) = None"
  using assms
  by (simp add: Validate_def provider_checks_def onelogin_account_def NewIDPAccount_def
      DefaultProfile_def)

theorem onelogin_scenario_witness:
  "url_Parse_ok permissive ''https://example.onelogin.com'' \<and>
   ValidateAndSetPrompter permissive '''' = None \<and>
   ''123'' \<noteq> '''' \<and> ''acme'' \<noteq> '''' \<and>
   Validate permissive onelogin_account = Some (New ''app ID empty in idp account'') \<and>
   Validate permissive (onelogin_account\<lparr>AppID := ''123''\<rparr>)
     = Some (New ''subdomain empty in idp account'') \<and>
   Validate permissive (onelogin_account\<lparr>AppID := ''123'', Subdomain := ''acme''\<rparr>) = None"
proof -
  have u: "url_Parse_ok permissive ''https://example.onelogin.com''"
    by (simp add: permissive_def)
  have p: "ValidateAndSetPrompter permissive '''' = None"
    by (simp add: permissive_def)
  have a: "''123'' \<noteq> ''''" and s: "''acme'' \<noteq> ''''" by simp_all
  show ?thesis
    using onelogin_scenario [OF u p a s] u p by simp
qed



text \<open>
  C10. The rendering never depends on the field \<open>DisableRememberDevice\<close>; for the
  provider \<^verbatim>\<open>Okta\<close> it begins with the two lines \<^verbatim>\<open>DisableSessions\<close> and
  \<^verbatim>\<open>DisableRememberDevice\<close>, and both lines show \<^verbatim>\<open>true\<close> when the field
  \<open>DisableSessions\<close> is set and \<^verbatim>\<open>false\<close> when it is not.
\<close>

theorem okta_summary_prints_DisableSessions_twice:
  "String (ia\<lparr>DisableRememberDevice := b\<rparr>) = String ia \<and>
   (Provider ia = ''Okta'' \<and> DisableSessions ia \<longrightarrow>
      prefix (''account {''
              @ nl @ ''  DisableSessions: true''
              @ nl @ ''  DisableRememberDevice: true''
              @ nl @ ''  URL: '')
        (String ia)) \<and>
   (Provider ia = ''Okta'' \<and> \<not> DisableSessions ia \<longrightarrow>
      prefix (''account {''
              @ nl @ ''  DisableSessions: false''
              @ nl @ ''  DisableRememberDevice: false''
              @ nl @ ''  URL: '')
        (String ia))"
  by (simp add: String_def provider_parts_def FormatBool_def)

theorem okta_summary_prints_DisableSessions_twice_witness:
  "Provider (NewIDPAccount\<lparr>Provider := ''Okta'', DisableSessions := True\<rparr>) = ''Okta'' \<and>
   DisableSessions (NewIDPAccount\<lparr>Provider := ''Okta'', DisableSessions := True\<rparr>) \<and>
   \<not> DisableRememberDevice (NewIDPAccount\<lparr>Provider := ''Okta'', DisableSessions := True\<rparr>) \<and>
   prefix (''account {'' @ nl @ ''  DisableSessions: true''
           @ nl @ ''  DisableRememberDevice: true'' @ nl @ ''  URL: '')
     (String (NewIDPAccount\<lparr>Provider := ''Okta'', DisableSessions := True\<rparr>)) \<and>
   prefix (''account {'' @ nl @ ''  DisableSessions: false''
           @ nl @ ''  DisableRememberDevice: false'' @ nl @ ''  URL: '')
     (String (NewIDPAccount\<lparr>Provider := ''Okta'', DisableRememberDevice := True\<rparr>))"
  using okta_summary_prints_DisableSessions_twice
    [where ia = "NewIDPAccount\<lparr>Provider := ''Okta'', DisableSessions := True\<rparr>"]
    okta_summary_prints_DisableSessions_twice
    [where ia = "NewIDPAccount\<lparr>Provider := ''Okta'', DisableRememberDevice := True\<rparr>"]
  by (simp add: NewIDPAccount_def)

end
